theory Spec2Isabelle
  imports Main
begin

section \<open>Python strings\<close>

text \<open>
  A Python \<open>str\<close> is modelled as a HOL \<open>string\<close>, each \<open>char\<close> standing for one
  code point below 256.  The string methods the program calls are written out
  for that range.
\<close>

text \<open>\<open>str.isspace\<close> on one code point: the code points below 256 that Python
  treats as whitespace.\<close>

definition isspace :: "char \<Rightarrow> bool" where
  "isspace c \<longleftrightarrow> c \<in> set [CHR 0x09, CHR 0x0A, CHR 0x0B, CHR 0x0C, CHR 0x0D,
                        CHR 0x1C, CHR 0x1D, CHR 0x1E, CHR 0x1F, CHR 0x20,
                        CHR 0x85, CHR 0xA0]"

text \<open>\<open>s.strip()\<close>: whitespace removed at both ends.\<close>

definition strip :: "string \<Rightarrow> string" where
  "strip s = rev (dropWhile isspace (rev (dropWhile isspace s)))"

text \<open>\<open>s.lower()\<close>: the upper-case letters below 256 are \<open>A\<close>..\<open>Z\<close> and
  \<open>0xC0\<close>..\<open>0xDE\<close> without \<open>0xD7\<close>; each has its lower-case form 32 places up.\<close>

definition lower_char :: "char \<Rightarrow> char" where
  "lower_char c =
     (let n = (of_char c :: nat)
      in if (65 \<le> n \<and> n \<le> 90) \<or> (192 \<le> n \<and> n \<le> 222 \<and> n \<noteq> 215)
         then char_of (n + 32) else c)"

definition lower :: "string \<Rightarrow> string" where
  "lower s = map lower_char s"

text \<open>\<open>s.split(sep)\<close> for a separator of one character: never the empty list.\<close>

fun split_on :: "char \<Rightarrow> string \<Rightarrow> string list" where
  "split_on sep [] = [[]]"
| "split_on sep (x # xs) =
     (let rest = split_on sep xs
      in if x = sep then [] # rest else (x # hd rest) # tl rest)"

text \<open>\<open>a, b = s.split(sep, 1)\<close> where \<open>sep in s\<close> has been tested before: the part
  before the first separator and the part after it.\<close>

definition split_once :: "char \<Rightarrow> string \<Rightarrow> string \<times> string" where
  "split_once sep s = (takeWhile (\<lambda>x. x \<noteq> sep) s, drop 1 (dropWhile (\<lambda>x. x \<noteq> sep) s))"

text \<open>\<open>"\n".join(items)\<close>.\<close>

fun join_lines :: "string list \<Rightarrow> string" where
  "join_lines [] = []"
| "join_lines [x] = x"
| "join_lines (x # y # ys) = x @ [CHR 0x0A] @ join_lines (y # ys)"

text \<open>\<open>s.startswith(p)\<close>.\<close>

definition startswith :: "string \<Rightarrow> string \<Rightarrow> bool" where
  "startswith s p \<longleftrightarrow> take (length p) s = p"

section \<open>The service-key codec\<close>

text \<open>\<open>parse_service_name\<close>: a key \<open>friendly-name|username@hostname\<close> is split at
  its first \<open>|\<close> and the rest at its first \<open>@\<close>; a key that lacks either comes
  back whole with empty user and host.\<close>

definition parse_service_name :: "string \<Rightarrow> string \<times> string \<times> string" where
  "parse_service_name service =
     (if CHR ''|'' \<in> set service then
        (let (friendly_name, connection) = split_once (CHR ''|'') service
         in if CHR ''@'' \<in> set connection then
              (let (username, hostname) = split_once (CHR ''@'') connection
               in (friendly_name, username, hostname))
            else (service, [], []))
      else (service, [], []))"

text \<open>\<open>format_display_name\<close>: \<open>name (user@host)\<close> when user and host are both
  non-empty, the bare name otherwise.\<close>

definition format_display_name :: "string \<Rightarrow> string" where
  "format_display_name service =
     (let (friendly_name, username, hostname) = parse_service_name service
      in if username \<noteq> [] \<and> hostname \<noteq> []
         then friendly_name @ '' ('' @ username @ ''@'' @ hostname @ '')''
         else friendly_name)"

text \<open>The key \<open>add_ssh_to_keychain\<close> builds: the friendly name, \<open>|\<close>, the user name,
  \<open>@\<close> and the host name, in this order and with no escaping.\<close>

definition service_key :: "string \<Rightarrow> string \<Rightarrow> string \<Rightarrow> string" where
  "service_key friendly_name username hostname =
     friendly_name @ ''|'' @ username @ ''@'' @ hostname"

section \<open>The selector protocol\<close>

text \<open>The loop \<open>for i, display in enumerate(display_items): if display == wanted: return ...\<close>
  leaves at the first index whose item equals the wanted string; \<open>None\<close> is the loop
  running to its end.  The counter starts at the third argument.\<close>

fun first_index :: "string list \<Rightarrow> string \<Rightarrow> nat \<Rightarrow> nat option" where
  "first_index [] wanted i = None"
| "first_index (display # rest) wanted i =
     (if display = wanted then Some i else first_index rest wanted (Suc i))"

text \<open>The selected line of the exit-status-0 branch: \<open>output_lines[-1]\<close>, and
  \<open>output_lines[-2]\<close> instead when that is empty and there is more than one line.\<close>

definition selected_line :: "string list \<Rightarrow> string" where
  "selected_line output_lines =
     (let selected_display = (if output_lines \<noteq> [] then last output_lines else [])
      in if selected_display = [] \<and> length output_lines > 1
         then output_lines ! (length output_lines - 2)
         else selected_display)"

text \<open>The typed name of the exit-status-1 branch: \<open>output_lines[0]\<close>, cut at its
  first \<open>(\<close> and stripped when it contains \<open>(\<close>, \<open>)\<close> and \<open>@\<close>.\<close>

definition typed_name :: "string list \<Rightarrow> string" where
  "typed_name output_lines =
     (let new_name = (if output_lines \<noteq> [] then hd output_lines else [])
      in if CHR ''('' \<in> set new_name \<and> CHR '')'' \<in> set new_name \<and> CHR ''@'' \<in> set new_name
         then strip (hd (split_on (CHR ''('') new_name))
         else new_name)"

text \<open>What \<open>select_key_with_fzf\<close> does with the finished subprocess: the pair
  \<open>(selected_key, is_delete_action)\<close> from the existing keys, the exit status and
  the text of standard output.  The debugging lines written to standard error are
  left out.\<close>

definition fzf_selection :: "string list \<Rightarrow> int \<Rightarrow> string \<Rightarrow> string \<times> bool" where
  "fzf_selection existing_keys returncode stdout =
     (let display_items = map format_display_name existing_keys;
          output = strip stdout
      in if startswith output ''DELETE:'' then
           (let display_name = drop 7 output
            in case first_index display_items display_name 0 of
                 Some i \<Rightarrow> (existing_keys ! i, True)
               | None \<Rightarrow> (display_name, True))
         else if returncode = 130 then ([], False)
         else
           (let output_lines = split_on (CHR 0x0A) output
            in if returncode = 0 then
                 (case first_index display_items (selected_line output_lines) 0 of
                    Some i \<Rightarrow> (existing_keys ! i, False)
                  | None \<Rightarrow> ([], False))
               else if returncode = 1 then (typed_name output_lines, False)
               else ([], False)))"

text \<open>The same interpretation with the selected line taken to be simply the last
  line of the stripped output, for comparison with \<open>fzf_selection\<close>.\<close>

definition fzf_selection_last_line :: "string list \<Rightarrow> int \<Rightarrow> string \<Rightarrow> string \<times> bool" where
  "fzf_selection_last_line existing_keys returncode stdout =
     (let display_items = map format_display_name existing_keys;
          output = strip stdout
      in if startswith output ''DELETE:'' then
           (let display_name = drop 7 output
            in case first_index display_items display_name 0 of
                 Some i \<Rightarrow> (existing_keys ! i, True)
               | None \<Rightarrow> (display_name, True))
         else if returncode = 130 then ([], False)
         else
           (let output_lines = split_on (CHR 0x0A) output
            in if returncode = 0 then
                 (case first_index display_items (last output_lines) 0 of
                    Some i \<Rightarrow> (existing_keys ! i, False)
                  | None \<Rightarrow> ([], False))
               else if returncode = 1 then (typed_name output_lines, False)
               else ([], False)))"

section \<open>Errors, collaborators and effects\<close>

text \<open>Every \<open>KittenError\<close> the program raises, by the place that raises it.\<close>

datatype kitten =
    KeychainListFailed   \<comment> \<open>\<open>Error retrieving keychain keys\<close>\<close>
  | FzfNotFound          \<comment> \<open>\<open>fzf command not found\<close>\<close>
  | FzfFailed            \<comment> \<open>\<open>Error during fzf selection\<close>\<close>
  | AddFailed            \<comment> \<open>\<open>Error adding SSH connection to keychain\<close>\<close>
  | GetFailed string     \<comment> \<open>\<open>Could not retrieve password for ...\<close>\<close>
  | DeleteFailed         \<comment> \<open>\<open>Error deleting SSH connection from keychain\<close>\<close>
  | ClipboardFailed      \<comment> \<open>\<open>Failed to copy to clipboard\<close>\<close>
  | CannotDelete string  \<comment> \<open>\<open>Cannot delete: ... does not exist\<close>\<close>
  | InvalidFormat string \<comment> \<open>\<open>Invalid SSH connection format for ...\<close>\<close>
  | UsernameEmpty        \<comment> \<open>\<open>Username cannot be empty\<close>\<close>
  | HostnameEmpty        \<comment> \<open>\<open>Hostname cannot be empty\<close>\<close>
  | PasswordEmpty        \<comment> \<open>\<open>Password cannot be empty\<close>\<close>
  | PasswordMismatch     \<comment> \<open>\<open>Passwords do not match\<close>\<close>

text \<open>The exceptions the handlers tell apart.  \<open>KeyboardInterrupt\<close> is the only one
  here that is not an \<open>Exception\<close>; \<open>CalledProcessError\<close> carries the captured
  standard error of the failed command; \<open>OtherException\<close> is any other subclass of
  \<open>Exception\<close>.\<close>

datatype error =
    KittenError kitten
  | KeyboardInterrupt
  | FileNotFoundError
  | CalledProcessError string
  | AttributeError
  | OtherException

text \<open>The outside world during one run: what each external command and each read
  from the terminal delivers, a value or an exception.  The flow is a single pass,
  so each field is consulted at most once per run.\<close>

record env =
  dump_keychain :: "error + string"
    \<comment> \<open>the text printed by \<open>security dump-keychain | awk\<close>\<close>
  run_fzf :: "string \<Rightarrow> error + int \<times> string"
    \<comment> \<open>exit status and standard output of fzf, given its input\<close>
  security_add :: "string \<Rightarrow> string \<Rightarrow> error + unit"
  security_find :: "string \<Rightarrow> error + string"
  security_delete :: "string \<Rightarrow> error + unit"
  pbcopy :: "string \<Rightarrow> error + unit"
  answer_delete :: "error + string"
    \<comment> \<open>the line read at \<open>Press Enter to DELETE\<close>\<close>
  answer_continue :: "error + string"
    \<comment> \<open>the line read at \<open>Press Enter to continue\<close> inside the \<open>try\<close> block\<close>
  answer_acknowledge :: "error + string"
    \<comment> \<open>the line read at \<open>Press Enter to continue\<close> inside an \<open>except\<close> block\<close>
  answer_username :: "error + string"
  answer_hostname :: "error + string"
  answer_password :: "error + string"
  answer_password_confirm :: "error + string"

datatype prompt =
    PressEnterToDelete | PressEnterToContinue | EnterUsername | EnterHostname
  | EnterPassword | ConfirmPassword

text \<open>What a run does to the outside world, in order.  Plain messages on standard
  output are not recorded.\<close>

datatype event =
    Asked prompt
  | SecurityAdd string string
  | SecurityFind string
  | SecurityDelete string
  | Pbcopy string
  | ErrorShown error

text \<open>A computation takes the events so far and gives a value or an exception
  together with the events extended.\<close>

type_synonym 'a io = "event list \<Rightarrow> (error + 'a) \<times> event list"

definition io_return :: "'a \<Rightarrow> 'a io" where
  "io_return v = (\<lambda>log. (Inr v, log))"

definition io_raise :: "error \<Rightarrow> 'a io" where
  "io_raise e = (\<lambda>log. (Inl e, log))"

definition io_emit :: "event \<Rightarrow> unit io" where
  "io_emit ev = (\<lambda>log. (Inr (), log @ [ev]))"

definition io_lift :: "error + 'a \<Rightarrow> 'a io" where
  "io_lift r = (\<lambda>log. (r, log))"

definition io_bind :: "'a io \<Rightarrow> ('a \<Rightarrow> 'b io) \<Rightarrow> 'b io" where
  "io_bind m f =
     (\<lambda>log. case m log of
               (Inl e, log') \<Rightarrow> (Inl e, log')
             | (Inr v, log') \<Rightarrow> f v log')"

text \<open>\<open>kitty_input\<close>: shows the prompt, reads a line and strips it; an exception of
  the read goes to the caller.\<close>

definition kitty_input :: "error + string \<Rightarrow> prompt \<Rightarrow> string io" where
  "kitty_input line p =
     io_bind (io_emit (Asked p)) (\<lambda>_.
       case line of
         Inl e \<Rightarrow> io_raise e
       | Inr response \<Rightarrow> io_return (strip response))"

text \<open>\<open>getpass.getpass\<close>: the line as typed.\<close>

definition getpass :: "error + string \<Rightarrow> prompt \<Rightarrow> string io" where
  "getpass line p = io_bind (io_emit (Asked p)) (\<lambda>_. io_lift line)"

section \<open>The keychain gateway\<close>

text \<open>\<open>get_existing_keys\<close>: the non-blank lines of the output, stripped; every
  \<open>Exception\<close> becomes a \<open>KittenError\<close>.\<close>

definition get_existing_keys :: "env \<Rightarrow> error + string list" where
  "get_existing_keys w =
     (case dump_keychain w of
        Inr output \<Rightarrow>
          Inr (if output \<noteq> []
               then map strip (filter (\<lambda>key. strip key \<noteq> []) (split_on (CHR 0x0A) (strip output)))
               else [])
      | Inl KeyboardInterrupt \<Rightarrow> Inl KeyboardInterrupt
      | Inl e \<Rightarrow> Inl (KittenError KeychainListFailed))"

text \<open>\<open>select_key_with_fzf\<close>: runs fzf on the display names joined by newlines
  and interprets the result; a missing executable and every other \<open>Exception\<close>
  become a \<open>KittenError\<close> each.\<close>

definition select_key_with_fzf :: "env \<Rightarrow> string list \<Rightarrow> error + string \<times> bool" where
  "select_key_with_fzf w existing_keys =
     (let display_items = map format_display_name existing_keys;
          input_data = join_lines display_items
      in case run_fzf w input_data of
           Inr (returncode, stdout) \<Rightarrow> Inr (fzf_selection existing_keys returncode stdout)
         | Inl FileNotFoundError \<Rightarrow> Inl (KittenError FzfNotFound)
         | Inl KeyboardInterrupt \<Rightarrow> Inl KeyboardInterrupt
         | Inl e \<Rightarrow> Inl (KittenError FzfFailed))"

definition add_ssh_to_keychain :: "env \<Rightarrow> string \<Rightarrow> string \<Rightarrow> string \<Rightarrow> string \<Rightarrow> unit io" where
  "add_ssh_to_keychain w friendly_name username hostname password =
     (let service = service_key friendly_name username hostname
      in io_bind (io_emit (SecurityAdd service password)) (\<lambda>_.
           case security_add w service password of
             Inr u \<Rightarrow> io_return ()
           | Inl (CalledProcessError stderr) \<Rightarrow> io_raise (KittenError AddFailed)
           | Inl e \<Rightarrow> io_raise e))"

text \<open>\<open>get_password_from_keychain\<close> runs the command in text mode, so the captured
  standard error of a failure is a \<open>str\<close>: when it is non-empty the handler calls
  \<open>decode\<close> on it, which a \<open>str\<close> does not have, and the \<open>AttributeError\<close> raised there
  replaces the \<open>KittenError\<close>.\<close>

definition get_password_from_keychain :: "env \<Rightarrow> string \<Rightarrow> string io" where
  "get_password_from_keychain w service =
     io_bind (io_emit (SecurityFind service)) (\<lambda>_.
       case security_find w service of
         Inr stdout \<Rightarrow> io_return (strip stdout)
       | Inl (CalledProcessError stderr) \<Rightarrow>
           if stderr \<noteq> [] then io_raise AttributeError
           else io_raise (KittenError (GetFailed service))
       | Inl e \<Rightarrow> io_raise e)"

definition delete_ssh_from_keychain :: "env \<Rightarrow> string \<Rightarrow> unit io" where
  "delete_ssh_from_keychain w service =
     io_bind (io_emit (SecurityDelete service)) (\<lambda>_.
       case security_delete w service of
         Inr u \<Rightarrow> io_return ()
       | Inl (CalledProcessError stderr) \<Rightarrow> io_raise (KittenError DeleteFailed)
       | Inl e \<Rightarrow> io_raise e)"

definition copy_to_clipboard :: "env \<Rightarrow> string \<Rightarrow> unit io" where
  "copy_to_clipboard w text =
     io_bind (io_emit (Pbcopy text)) (\<lambda>_.
       case pbcopy w text of
         Inr u \<Rightarrow> io_return ()
       | Inl (CalledProcessError stderr) \<Rightarrow> io_raise (KittenError ClipboardFailed)
       | Inl e \<Rightarrow> io_raise e)"

section \<open>The reconciliation flow\<close>

text \<open>\<open>confirm_delete\<close>: the answer is lower-cased; deletion goes ahead unless the
  answer is \<open>no\<close> or \<open>n\<close>.\<close>

definition confirm_delete :: "env \<Rightarrow> string \<Rightarrow> bool io" where
  "confirm_delete w service =
     io_bind (kitty_input (answer_delete w) PressEnterToDelete) (\<lambda>r.
       let response = lower r
       in if response = [] \<or> response \<notin> set [''no'', ''n'']
          then io_return True
          else io_return False)"

text \<open>The \<open>try\<close> block of \<open>main\<close>.\<close>

definition main_try :: "env \<Rightarrow> string io" where
  "main_try w =
     io_bind (io_lift (get_existing_keys w)) (\<lambda>existing_keys.
     io_bind (io_lift (select_key_with_fzf w existing_keys)) (\<lambda>(selected_key, is_delete).
       if selected_key = [] then io_return []
       else if is_delete then
         (if selected_key \<in> set existing_keys then
            io_bind (confirm_delete w selected_key) (\<lambda>confirmed.
              if confirmed then
                io_bind (delete_ssh_from_keychain w selected_key) (\<lambda>_.
                io_bind (kitty_input (answer_continue w) PressEnterToContinue) (\<lambda>_.
                io_return []))
              else
                io_bind (kitty_input (answer_continue w) PressEnterToContinue) (\<lambda>_.
                io_return []))
          else io_raise (KittenError (CannotDelete selected_key)))
       else if selected_key \<in> set existing_keys then
         (let (friendly_name, username, hostname) = parse_service_name selected_key
          in if username = [] \<or> hostname = [] then
               io_raise (KittenError (InvalidFormat selected_key))
             else
               io_bind (get_password_from_keychain w selected_key) (\<lambda>password.
               io_bind (copy_to_clipboard w password) (\<lambda>_.
               io_return
                 (''kitty +kitten ssh -o UserKnownHostsFile=/dev/null -o StrictHostKeyChecking=no ''
                  @ username @ ''@'' @ hostname))))
       else
         (let friendly_name = selected_key
          in io_bind (kitty_input (answer_username w) EnterUsername) (\<lambda>r.
             let username = strip r
             in if username = [] then io_raise (KittenError UsernameEmpty)
             else
             io_bind (kitty_input (answer_hostname w) EnterHostname) (\<lambda>r.
             let hostname = strip r
             in if hostname = [] then io_raise (KittenError HostnameEmpty)
             else
             io_bind (getpass (answer_password w) EnterPassword) (\<lambda>password.
             if password = [] then io_raise (KittenError PasswordEmpty)
             else
             io_bind (getpass (answer_password_confirm w) ConfirmPassword) (\<lambda>password_confirm.
             if password \<noteq> password_confirm then io_raise (KittenError PasswordMismatch)
             else
             io_bind (add_ssh_to_keychain w friendly_name username hostname password) (\<lambda>_.
             io_bind (kitty_input (answer_continue w) PressEnterToContinue) (\<lambda>_.
             io_return [])))))))))"

text \<open>The last branch of the \<open>try\<close> block on its own: a new connection under the
  given friendly name, from the prompts to the keychain entry.\<close>

definition new_connection :: "env \<Rightarrow> string \<Rightarrow> string io" where
  "new_connection w friendly_name =
     io_bind (kitty_input (answer_username w) EnterUsername) (\<lambda>r.
     let username = strip r
     in if username = [] then io_raise (KittenError UsernameEmpty)
     else
     io_bind (kitty_input (answer_hostname w) EnterHostname) (\<lambda>r.
     let hostname = strip r
     in if hostname = [] then io_raise (KittenError HostnameEmpty)
     else
     io_bind (getpass (answer_password w) EnterPassword) (\<lambda>password.
     if password = [] then io_raise (KittenError PasswordEmpty)
     else
     io_bind (getpass (answer_password_confirm w) ConfirmPassword) (\<lambda>password_confirm.
     if password \<noteq> password_confirm then io_raise (KittenError PasswordMismatch)
     else
     io_bind (add_ssh_to_keychain w friendly_name username hostname password) (\<lambda>_.
     io_bind (kitty_input (answer_continue w) PressEnterToContinue) (\<lambda>_.
     io_return []))))))"

text \<open>The body shared by the handlers of \<open>KittenError\<close> and \<open>Exception\<close>: the
  message on standard error, then the pause.\<close>

definition report_and_pause :: "env \<Rightarrow> error \<Rightarrow> string io" where
  "report_and_pause w e =
     io_bind (io_emit (ErrorShown e)) (\<lambda>_.
     io_bind (kitty_input (answer_acknowledge w) PressEnterToContinue) (\<lambda>_.
     io_return []))"

text \<open>\<open>main\<close>: the \<open>try\<close> block under its three handlers, started with no events.
  An exception raised inside a handler is not under any handler.\<close>

definition main :: "env \<Rightarrow> (error + string) \<times> event list" where
  "main w =
     (case main_try w [] of
        (Inr result, log) \<Rightarrow> (Inr result, log)
      | (Inl (KittenError k), log) \<Rightarrow> report_and_pause w (KittenError k) log
      | (Inl KeyboardInterrupt, log) \<Rightarrow> (Inr [], log)
      | (Inl e, log) \<Rightarrow> report_and_pause w e log)"

section \<open>A quiet outside world\<close>

text \<open>The world in which the keychain is empty, fzf is cancelled at once, every
  command succeeds and every line read is empty; the examples below vary it.\<close>

definition idle_env :: env where
  "idle_env =
     \<lparr> dump_keychain = Inr [],
       run_fzf = (\<lambda>input_data. Inr (130, [])),
       security_add = (\<lambda>service password. Inr ()),
       security_find = (\<lambda>service. Inr []),
       security_delete = (\<lambda>service. Inr ()),
       pbcopy = (\<lambda>text. Inr ()),
       answer_delete = Inr [],
       answer_continue = Inr [],
       answer_acknowledge = Inr [],
       answer_username = Inr [],
       answer_hostname = Inr [],
       answer_password = Inr [],
       answer_password_confirm = Inr [] \<rparr>"

section \<open>Facts about the string operations\<close>

lemma split_once_append:
  "sep \<notin> set a \<Longrightarrow> split_once sep (a @ sep # b) = (a, b)"
proof -
  assume "sep \<notin> set a"
  then have all: "\<And>x. x \<in> set a \<Longrightarrow> x \<noteq> sep"
    by blast
  have "takeWhile (\<lambda>x. x \<noteq> sep) (a @ sep # b) = a"
    using all by (simp add: takeWhile_append2)
  moreover have "dropWhile (\<lambda>x. x \<noteq> sep) (a @ sep # b) = sep # b"
    using all by (simp add: dropWhile_append2)
  ultimately show ?thesis
    by (simp add: split_once_def)
qed

lemma split_on_not_Nil: "split_on sep s \<noteq> []"
  by (induction s) (simp_all add: Let_def)

lemma hd_split_on: "hd (split_on sep s) = takeWhile (\<lambda>x. x \<noteq> sep) s"
  by (induction s) (simp_all add: Let_def)

lemma split_on_absent: "sep \<notin> set s \<Longrightarrow> split_on sep s = [s]"
  by (induction s) (auto simp: Let_def)

lemma split_on_append:
  "split_on sep (a @ sep # b) = split_on sep a @ split_on sep b"
proof (induction a)
  case Nil
  show ?case by simp
next
  case (Cons x a)
  have ne: "split_on sep a \<noteq> []" by (rule split_on_not_Nil)
  show ?case
    using Cons ne by (simp add: Let_def)
qed

lemma last_split_on_nonempty:
  assumes "s \<noteq> []" and "last s \<noteq> sep"
  shows "last (split_on sep s) \<noteq> []"
proof (cases "sep \<in> set s")
  case False
  then show ?thesis using assms by (simp add: split_on_absent)
next
  case True
  then obtain a b where s: "s = a @ sep # b" and b: "sep \<notin> set b"
    by (meson split_list_last)
  have "b \<noteq> []" using assms s by auto
  moreover have "last (split_on sep s) = b"
    using s b by (simp add: split_on_append split_on_absent)
  ultimately show ?thesis by simp
qed

lemma strip_last: "strip s \<noteq> [] \<Longrightarrow> \<not> isspace (last (strip s))"
proof -
  assume ne: "strip s \<noteq> []"
  let ?d = "dropWhile isspace (rev (dropWhile isspace s))"
  have d: "?d \<noteq> []" using ne by (simp add: strip_def)
  then have "\<not> isspace (hd ?d)" by (rule hd_dropWhile)
  moreover have "last (strip s) = hd ?d"
    using d by (simp add: strip_def last_rev)
  ultimately show ?thesis by simp
qed

lemma isspace_newline: "isspace (CHR 0x0A)"
  by (simp add: isspace_def)

lemma last_line_strip_nonempty:
  "strip s \<noteq> [] \<Longrightarrow> last (split_on (CHR 0x0A) (strip s)) \<noteq> []"
proof -
  assume ne: "strip s \<noteq> []"
  then have "\<not> isspace (last (strip s))" by (rule strip_last)
  then have "last (strip s) \<noteq> CHR 0x0A" using isspace_newline by metis
  with ne show ?thesis by (rule last_split_on_nonempty)
qed

lemma selected_line_strip:
  "selected_line (split_on (CHR 0x0A) (strip s)) = last (split_on (CHR 0x0A) (strip s))"
proof (cases "strip s = []")
  case True
  then show ?thesis by (simp add: selected_line_def)
next
  case False
  then have "last (split_on (CHR 0x0A) (strip s)) \<noteq> []"
    by (rule last_line_strip_nonempty)
  then show ?thesis
    by (simp add: selected_line_def split_on_not_Nil)
qed

lemma first_index_None: "first_index xs wanted k = None \<longleftrightarrow> wanted \<notin> set xs"
  by (induction xs arbitrary: k) auto


lemma select_completed:
  "run_fzf w (join_lines (map format_display_name keys)) = Inr (rc, out)
   \<Longrightarrow> select_key_with_fzf w keys = Inr (fzf_selection keys rc out)"
  by (simp add: select_key_with_fzf_def)


section \<open>Facts about the flow\<close>

lemma report_and_pause_log:
  "snd (report_and_pause w e log) = log @ [ErrorShown e, Asked PressEnterToContinue]"
  by (simp add: report_and_pause_def kitty_input_def io_bind_def io_emit_def io_return_def
      io_raise_def split: sum.splits)

lemma report_and_pause_acknowledged:
  "answer_acknowledge w = Inr line \<Longrightarrow>
   report_and_pause w e log = (Inr [], log @ [ErrorShown e, Asked PressEnterToContinue])"
  by (simp add: report_and_pause_def kitty_input_def io_bind_def io_emit_def io_return_def)

lemma main_try_empty_selection:
  "get_existing_keys w = Inr existing_keys
   \<Longrightarrow> select_key_with_fzf w existing_keys = Inr ([], is_delete)
   \<Longrightarrow> main_try w [] = (Inr [], [])"
  by (simp add: main_try_def io_bind_def io_lift_def io_return_def)

text \<open>When the pause inside the handlers returns, \<open>main\<close> returns a string: every
  exception of the \<open>try\<close> block is then turned into a result.\<close>

lemma main_returns_when_acknowledged:
  assumes "answer_acknowledge w = Inr line"
  shows "\<exists>result log. main w = (Inr result, log)"
proof (cases "main_try w []")
  case (Pair r log)
  show ?thesis
  proof (cases r)
    case (Inr result)
    with Pair show ?thesis by (simp add: main_def)
  next
    case (Inl e)
    with Pair show ?thesis
      by (cases e) (simp_all add: main_def report_and_pause_acknowledged [OF assms])
  qed
qed

lemma main_try_new_name:
  assumes keys: "get_existing_keys w = Inr existing_keys"
    and sel: "select_key_with_fzf w existing_keys = Inr (new_name, False)"
    and nonempty: "new_name \<noteq> []"
    and unlisted: "new_name \<notin> set existing_keys"
  shows "main_try w [] = new_connection w new_name []"
  using nonempty unlisted
  by (simp add: main_try_def new_connection_def io_bind_def io_lift_def keys sel Let_def)

lemma main_catches_try_errors:
  assumes "main_try w [] = (Inl e, log)" and "answer_acknowledge w = Inr line"
  shows "fst (main w) = Inr []"
  using assms(1)
  by (cases e) (simp_all add: main_def report_and_pause_acknowledged [OF assms(2)])

section \<open>Claims about the codec\<close>

text \<open>
  C2. A key that contains no \<open>|\<close>, or whose part after the first \<open>|\<close> contains no
  \<open>@\<close>, is parsed to the whole key as the name, with an empty user and an empty
  host.  The function is total: no input makes it fail.
\<close>

theorem parse_service_name_fallback:
  "CHR ''|'' \<notin> set key \<or> CHR ''@'' \<notin> set (snd (split_once (CHR ''|'') key))
   \<Longrightarrow> parse_service_name key = (key, [], [])"
  by (auto simp: parse_service_name_def split: prod.splits)

theorem parse_service_name_fallback_witness:
  "CHR ''|'' \<notin> set ''no-pipe-here''
   \<and> parse_service_name ''no-pipe-here'' = (''no-pipe-here'', [], [])
   \<and> CHR ''@'' \<notin> set (snd (split_once (CHR ''|'') ''name|no-at-sign''))
   \<and> parse_service_name ''name|no-at-sign'' = (''name|no-at-sign'', [], [])"
  using parse_service_name_fallback [of "''no-pipe-here''"]
        parse_service_name_fallback [of "''name|no-at-sign''"]
  by (simp add: split_once_def)

text \<open>
  C3. Parsing the key built from a name without \<open>|\<close>, a user without \<open>@\<close> and
  any host gives back the name, the user and the host.
\<close>

theorem parse_service_key_roundtrip:
  "CHR ''|'' \<notin> set name \<Longrightarrow> CHR ''@'' \<notin> set user
   \<Longrightarrow> parse_service_name (service_key name user host) = (name, user, host)"
proof -
  assume n: "CHR ''|'' \<notin> set name" and u: "CHR ''@'' \<notin> set user"
  have 1: "split_once (CHR ''|'') (name @ CHR ''|'' # (user @ CHR ''@'' # host))
           = (name, user @ CHR ''@'' # host)"
    using n by (rule split_once_append)
  have 2: "split_once (CHR ''@'') (user @ CHR ''@'' # host) = (user, host)"
    using u by (rule split_once_append)
  show ?thesis
    by (simp add: parse_service_name_def service_key_def 1 2)
qed

theorem parse_service_key_roundtrip_witness:
  "CHR ''|'' \<notin> set ''work'' \<and> CHR ''@'' \<notin> set ''alice''
   \<and> parse_service_name (service_key ''work'' ''alice'' ''host1'') = (''work'', ''alice'', ''host1'')"
  using parse_service_key_roundtrip [of "''work''" "''alice''" "''host1''"]
  by simp

section \<open>Claims about the selector\<close>

text \<open>
  C1, as stated, fails: the test for the \<open>DELETE:\<close> prefix comes before the test of
  the exit status, so exit status 130 with an output \<open>DELETE:x\<close> selects \<open>x\<close> for
  deletion.
\<close>

theorem select_cancel_130_counterexample:
  "select_key_with_fzf (idle_env\<lparr>run_fzf := (\<lambda>input_data. Inr (130, ''DELETE:x''))\<rparr>) []
     = Inr (''x'', True)
   \<and> select_key_with_fzf (idle_env\<lparr>run_fzf := (\<lambda>input_data. Inr (130, ''DELETE:x''))\<rparr>) []
     \<noteq> Inr ([], False)"
  by (simp add: select_key_with_fzf_def idle_env_def fzf_selection_def strip_def isspace_def
      startswith_def)

text \<open>
  C1, amended.  When the exit status is 130 and the stripped output does not start
  with \<open>DELETE:\<close>, \<open>select_key_with_fzf\<close> returns the empty selection with the delete
  flag false, whatever else the output holds.
\<close>

theorem select_cancel_130:
  "run_fzf w (join_lines (map format_display_name existing_keys)) = Inr (130, stdout)
   \<Longrightarrow> \<not> startswith (strip stdout) ''DELETE:''
   \<Longrightarrow> select_key_with_fzf w existing_keys = Inr ([], False)"
  by (simp add: select_completed fzf_selection_def)

theorem select_cancel_130_witness:
  "run_fzf (idle_env\<lparr>run_fzf := (\<lambda>input_data. Inr (130, ''work (alice@host1)''))\<rparr>)
     (join_lines (map format_display_name [''work|alice@host1'']))
     = Inr (130, ''work (alice@host1)'')
   \<and> \<not> startswith (strip ''work (alice@host1)'') ''DELETE:''
   \<and> select_key_with_fzf (idle_env\<lparr>run_fzf := (\<lambda>input_data. Inr (130, ''work (alice@host1)''))\<rparr>)
       [''work|alice@host1''] = Inr ([], False)"
  using select_cancel_130 [of "idle_env\<lparr>run_fzf := (\<lambda>input_data. Inr (130, ''work (alice@host1)''))\<rparr>"
      "[''work|alice@host1'']" "''work (alice@host1)''"]
  by (simp add: strip_def isspace_def startswith_def)




text \<open>
  C5, as stated, fails in three ways at exit status 1.  A first line such as
  \<open>(x@y)\<close> is cut down to the empty name, which is the empty selection: \<open>main\<close>
  returns at once and creates nothing.  A first line equal to a listed key makes
  \<open>main\<close> fetch that key's password and connect.  An output with a blank before
  \<open>DELETE:\<close> does not start with the prefix, yet it selects for deletion.
\<close>

theorem select_new_name_counterexample:
  "\<not> startswith ''(x@y)'' ''DELETE:''
   \<and> select_key_with_fzf (idle_env\<lparr>dump_keychain := Inr ''home|bob@h1'',
                                    run_fzf := (\<lambda>input_data. Inr (1, ''(x@y)''))\<rparr>)
        [''home|bob@h1''] = Inr ([], False)
   \<and> main (idle_env\<lparr>dump_keychain := Inr ''home|bob@h1'',
                     run_fzf := (\<lambda>input_data. Inr (1, ''(x@y)''))\<rparr>) = (Inr [], [])
   \<and> \<not> startswith ''home|bob@h1'' ''DELETE:''
   \<and> select_key_with_fzf (idle_env\<lparr>dump_keychain := Inr ''home|bob@h1'',
                                    run_fzf := (\<lambda>input_data. Inr (1, ''home|bob@h1''))\<rparr>)
        [''home|bob@h1''] = Inr (''home|bob@h1'', False)
   \<and> snd (main (idle_env\<lparr>dump_keychain := Inr ''home|bob@h1'',
                          run_fzf := (\<lambda>input_data. Inr (1, ''home|bob@h1''))\<rparr>))
        = [SecurityFind ''home|bob@h1'', Pbcopy []]
   \<and> \<not> startswith '' DELETE:x'' ''DELETE:''
   \<and> select_key_with_fzf (idle_env\<lparr>dump_keychain := Inr ''home|bob@h1'',
                                    run_fzf := (\<lambda>input_data. Inr (1, '' DELETE:x''))\<rparr>)
        [''home|bob@h1''] = Inr (''x'', True)"
proof -
  let ?a = "idle_env\<lparr>dump_keychain := Inr ''home|bob@h1'',
                     run_fzf := (\<lambda>input_data. Inr (1, ''(x@y)''))\<rparr>"
  let ?b = "idle_env\<lparr>dump_keychain := Inr ''home|bob@h1'',
                     run_fzf := (\<lambda>input_data. Inr (1, ''home|bob@h1''))\<rparr>"
  let ?c = "idle_env\<lparr>dump_keychain := Inr ''home|bob@h1'',
                     run_fzf := (\<lambda>input_data. Inr (1, '' DELETE:x''))\<rparr>"
  have ka: "get_existing_keys ?a = Inr [''home|bob@h1'']"
    by (simp add: get_existing_keys_def strip_def isspace_def Let_def)
  have kb: "get_existing_keys ?b = Inr [''home|bob@h1'']"
    by (simp add: get_existing_keys_def strip_def isspace_def Let_def)
  have sa: "select_key_with_fzf ?a [''home|bob@h1''] = Inr ([], False)"
    by (simp add: select_key_with_fzf_def fzf_selection_def typed_name_def strip_def isspace_def
        startswith_def Let_def)
  have sb: "select_key_with_fzf ?b [''home|bob@h1''] = Inr (''home|bob@h1'', False)"
    by (simp add: select_key_with_fzf_def fzf_selection_def typed_name_def strip_def isspace_def
        startswith_def Let_def)
  have sc: "select_key_with_fzf ?c [''home|bob@h1''] = Inr (''x'', True)"
    by (simp add: select_key_with_fzf_def fzf_selection_def strip_def isspace_def
        startswith_def format_display_name_def parse_service_name_def split_once_def Let_def)
  have ma: "main ?a = (Inr [], [])"
    by (simp add: main_def main_try_empty_selection [OF ka sa])
  have tb: "main_try ?b [] =
      (Inr (''kitty +kitten ssh -o UserKnownHostsFile=/dev/null -o StrictHostKeyChecking=no ''
            @ ''bob'' @ ''@'' @ ''h1''),
       [SecurityFind ''home|bob@h1'', Pbcopy []])"
  proof -
    have f: "\<And>service. security_find idle_env service = Inr []" by (simp add: idle_env_def)
    have p: "\<And>text. pbcopy idle_env text = Inr ()" by (simp add: idle_env_def)
    show ?thesis
      by (simp add: main_try_def io_bind_def io_lift_def io_return_def io_emit_def kb sb
          parse_service_name_def split_once_def get_password_from_keychain_def
          copy_to_clipboard_def f p strip_def)
  qed
  have mb: "snd (main ?b) = [SecurityFind ''home|bob@h1'', Pbcopy []]"
    by (simp add: main_def tb)
  show ?thesis
    by (simp add: sa sb sc ma mb startswith_def)
qed

text \<open>
  C5, amended.  Exit status 1 and an output that, stripped, does not start with
  \<open>DELETE:\<close>: \<open>select_key_with_fzf\<close> returns, with the delete flag false, the first
  line of the stripped output, cut at its first \<open>(\<close> and stripped when it contains
  \<open>(\<close>, \<open>)\<close> and \<open>@\<close>, so that \<open>weird (x@y)\<close> gives \<open>weird\<close>.  When that name is
  non-empty and not among the listed keys, \<open>main\<close> creates: its \<open>try\<close> block is the
  new-connection branch run with that name as the friendly name.
\<close>

theorem select_new_name:
  assumes run: "run_fzf w (join_lines (map format_display_name existing_keys)) = Inr (1, stdout)"
    and nodel: "\<not> startswith (strip stdout) ''DELETE:''"
    and first: "first_line = takeWhile (\<lambda>c. c \<noteq> CHR 0x0A) (strip stdout)"
    and name: "new_name =
                 (if CHR ''('' \<in> set first_line \<and> CHR '')'' \<in> set first_line \<and> CHR ''@'' \<in> set first_line
                  then strip (takeWhile (\<lambda>c. c \<noteq> CHR ''('') first_line)
                  else first_line)"
  shows "select_key_with_fzf w existing_keys = Inr (new_name, False)
       \<and> (get_existing_keys w = Inr existing_keys \<and> new_name \<noteq> [] \<and> new_name \<notin> set existing_keys
          \<longrightarrow> main_try w [] = new_connection w new_name [])"
proof -
  have s: "select_key_with_fzf w existing_keys = Inr (new_name, False)"
    using nodel
    by (simp add: select_completed [OF run] fzf_selection_def typed_name_def split_on_not_Nil
        hd_split_on first name Let_def)
  moreover have "main_try w [] = new_connection w new_name []"
    if "get_existing_keys w = Inr existing_keys \<and> new_name \<noteq> [] \<and> new_name \<notin> set existing_keys"
    using that s by (simp add: main_try_new_name)
  ultimately show ?thesis by blast
qed

theorem select_new_name_witness:
  "run_fzf (idle_env\<lparr>dump_keychain := Inr ''home|bob@h1'',
                        run_fzf := (\<lambda>input_data. Inr (1, ''weird (x@y)'')),
                        answer_username := Inr ''carol'', answer_hostname := Inr ''h2'',
                        answer_password := Inr ''s3cr3t'',
                        answer_password_confirm := Inr ''s3cr3t''\<rparr>)
     (join_lines (map format_display_name [''home|bob@h1''])) = Inr (1, ''weird (x@y)'')
   \<and> \<not> startswith (strip ''weird (x@y)'') ''DELETE:''
   \<and> ''weird (x@y)'' = takeWhile (\<lambda>c. c \<noteq> CHR 0x0A) (strip ''weird (x@y)'')
   \<and> ''weird'' = strip (takeWhile (\<lambda>c. c \<noteq> CHR ''('') ''weird (x@y)'')
   \<and> get_existing_keys (idle_env\<lparr>dump_keychain := Inr ''home|bob@h1'',
                        run_fzf := (\<lambda>input_data. Inr (1, ''weird (x@y)'')),
                        answer_username := Inr ''carol'', answer_hostname := Inr ''h2'',
                        answer_password := Inr ''s3cr3t'',
                        answer_password_confirm := Inr ''s3cr3t''\<rparr>) = Inr [''home|bob@h1'']
   \<and> ''weird'' \<noteq> [] \<and> ''weird'' \<notin> set [''home|bob@h1'']
   \<and> select_key_with_fzf (idle_env\<lparr>dump_keychain := Inr ''home|bob@h1'',
                        run_fzf := (\<lambda>input_data. Inr (1, ''weird (x@y)'')),
                        answer_username := Inr ''carol'', answer_hostname := Inr ''h2'',
                        answer_password := Inr ''s3cr3t'',
                        answer_password_confirm := Inr ''s3cr3t''\<rparr>)
        [''home|bob@h1''] = Inr (''weird'', False)
   \<and> main_try (idle_env\<lparr>dump_keychain := Inr ''home|bob@h1'',
                        run_fzf := (\<lambda>input_data. Inr (1, ''weird (x@y)'')),
                        answer_username := Inr ''carol'', answer_hostname := Inr ''h2'',
                        answer_password := Inr ''s3cr3t'',
                        answer_password_confirm := Inr ''s3cr3t''\<rparr>) []
       = (Inr [], [Asked EnterUsername, Asked EnterHostname, Asked EnterPassword,
                   Asked ConfirmPassword, SecurityAdd ''weird|carol@h2'' ''s3cr3t'',
                   Asked PressEnterToContinue])"
proof -
  let ?w = "idle_env\<lparr>dump_keychain := Inr ''home|bob@h1'',
                        run_fzf := (\<lambda>input_data. Inr (1, ''weird (x@y)'')),
                        answer_username := Inr ''carol'', answer_hostname := Inr ''h2'',
                        answer_password := Inr ''s3cr3t'',
                        answer_password_confirm := Inr ''s3cr3t''\<rparr>"
  have r: "run_fzf ?w (join_lines (map format_display_name [''home|bob@h1'']))
             = Inr (1, ''weird (x@y)'')"
    by simp
  have st: "strip ''weird (x@y)'' = ''weird (x@y)''"
    by (simp add: strip_def isspace_def)
  have n: "\<not> startswith (strip ''weird (x@y)'') ''DELETE:''"
    by (simp add: st startswith_def)
  have f: "''weird (x@y)'' = takeWhile (\<lambda>c. c \<noteq> CHR 0x0A) (strip ''weird (x@y)'')"
    by (simp add: st)
  have c: "''weird'' = strip (takeWhile (\<lambda>c. c \<noteq> CHR ''('') ''weird (x@y)'')"
    by (simp add: strip_def isspace_def)
  have nm: "''weird'' =
      (if CHR ''('' \<in> set ''weird (x@y)'' \<and> CHR '')'' \<in> set ''weird (x@y)''
          \<and> CHR ''@'' \<in> set ''weird (x@y)''
       then strip (takeWhile (\<lambda>c. c \<noteq> CHR ''('') ''weird (x@y)'')
       else ''weird (x@y)'')"
    using c by simp
  have k: "get_existing_keys ?w = Inr [''home|bob@h1'']"
    by (simp add: get_existing_keys_def strip_def isspace_def Let_def)
  have nc: "new_connection ?w ''weird'' []
     = (Inr [], [Asked EnterUsername, Asked EnterHostname, Asked EnterPassword,
                   Asked ConfirmPassword, SecurityAdd ''weird|carol@h2'' ''s3cr3t'',
                   Asked PressEnterToContinue])"
    by (simp add: new_connection_def kitty_input_def getpass_def add_ssh_to_keychain_def
        service_key_def io_bind_def io_emit_def io_return_def io_lift_def idle_env_def
        strip_def isspace_def Let_def)
  have c': "strip ''weird '' = ''weird''"
    by (simp add: strip_def isspace_def)
  show ?thesis
    using select_new_name [OF r n f nm] k
    by (simp add: st nc c' startswith_def)
qed

text \<open>
  C10.  The output is stripped before it is split into lines, so its last line is
  non-empty whenever the stripped output is non-empty; the step back to the line
  before the last never changes the selected line, and the interpretation equals
  the one that simply takes the last line of the stripped output.
\<close>

theorem selected_line_is_last_line:
  "fzf_selection existing_keys returncode stdout
     = fzf_selection_last_line existing_keys returncode stdout
   \<and> selected_line (split_on (CHR 0x0A) (strip stdout)) = last (split_on (CHR 0x0A) (strip stdout))
   \<and> (strip stdout \<noteq> [] \<longrightarrow> last (split_on (CHR 0x0A) (strip stdout)) \<noteq> [])"
  by (simp add: fzf_selection_def fzf_selection_last_line_def selected_line_strip
      last_line_strip_nonempty Let_def)

theorem selected_line_is_last_line_witness:
  "strip ('' a'' @ [CHR 0x0A] @ ''b '' @ [CHR 0x0A]) \<noteq> []
   \<and> last (split_on (CHR 0x0A) (strip ('' a'' @ [CHR 0x0A] @ ''b '' @ [CHR 0x0A]))) = ''b''
   \<and> fzf_selection [''b''] 0 ('' a'' @ [CHR 0x0A] @ ''b '' @ [CHR 0x0A])
       = fzf_selection_last_line [''b''] 0 ('' a'' @ [CHR 0x0A] @ ''b '' @ [CHR 0x0A])"
  using selected_line_is_last_line [of "[''b'']" 0 "'' a'' @ [CHR 0x0A] @ ''b '' @ [CHR 0x0A]"]
  by (simp add: strip_def isspace_def)

section \<open>Claims about the flow\<close>

text \<open>
  C7.  Whatever \<open>kitty_input\<close> returns at the confirmation prompt, \<open>confirm_delete\<close>
  returns \<open>False\<close> exactly when the response in lower case is \<open>no\<close> or \<open>n\<close>; the empty
  response and every other response confirm the deletion.
\<close>

theorem confirm_delete_answer:
  assumes "kitty_input (answer_delete w) PressEnterToDelete log = (Inr response, log')"
  shows "confirm_delete w service log
           = (Inr (\<not> (lower response = ''no'' \<or> lower response = ''n'')), log')
       \<and> (response = [] \<longrightarrow> confirm_delete w service log = (Inr True, log'))"
  using assms
  by (auto simp: confirm_delete_def io_bind_def io_return_def Let_def lower_def)

theorem confirm_delete_answer_witness:
  "kitty_input (answer_delete (idle_env\<lparr>answer_delete := Inr ''No''\<rparr>)) PressEnterToDelete []
     = (Inr ''No'', [Asked PressEnterToDelete])
   \<and> confirm_delete (idle_env\<lparr>answer_delete := Inr ''No''\<rparr>) ''home|bob@h1'' []
     = (Inr False, [Asked PressEnterToDelete])
   \<and> kitty_input (answer_delete idle_env) PressEnterToDelete [] = (Inr [], [Asked PressEnterToDelete])
   \<and> confirm_delete idle_env ''home|bob@h1'' [] = (Inr True, [Asked PressEnterToDelete])
   \<and> kitty_input (answer_delete (idle_env\<lparr>answer_delete := Inr ''yes''\<rparr>)) PressEnterToDelete []
     = (Inr ''yes'', [Asked PressEnterToDelete])
   \<and> confirm_delete (idle_env\<lparr>answer_delete := Inr ''yes''\<rparr>) ''home|bob@h1'' []
     = (Inr True, [Asked PressEnterToDelete])"
proof -
  have k1: "kitty_input (answer_delete (idle_env\<lparr>answer_delete := Inr ''No''\<rparr>)) PressEnterToDelete []
     = (Inr ''No'', [Asked PressEnterToDelete])"
    by (simp add: kitty_input_def io_bind_def io_emit_def io_return_def strip_def isspace_def)
  have k2: "kitty_input (answer_delete idle_env) PressEnterToDelete [] = (Inr [], [Asked PressEnterToDelete])"
    by (simp add: kitty_input_def io_bind_def io_emit_def io_return_def strip_def idle_env_def)
  have k3: "kitty_input (answer_delete (idle_env\<lparr>answer_delete := Inr ''yes''\<rparr>)) PressEnterToDelete []
     = (Inr ''yes'', [Asked PressEnterToDelete])"
    by (simp add: kitty_input_def io_bind_def io_emit_def io_return_def strip_def isspace_def)
  have l0: "lower [] = []" by (simp add: lower_def)
  have l1: "lower ''No'' = ''no''" by code_simp
  have l3: "lower ''yes'' = ''yes''" by code_simp
  show ?thesis
    using confirm_delete_answer [OF k1, of "''home|bob@h1''"]
      confirm_delete_answer [OF k2, of "''home|bob@h1''"]
      confirm_delete_answer [OF k3, of "''home|bob@h1''"]
      k1 k2 k3
    by (simp add: l0 l1 l3)
qed

text \<open>
  C6, as stated, fails: an output that is just \<open>DELETE:\<close> selects the empty string for
  deletion; the empty string is not a listed key, yet the flow returns the empty
  result at its first test and raises nothing.
\<close>

theorem delete_unknown_counterexample:
  "get_existing_keys (idle_env\<lparr>dump_keychain := Inr ''home|bob@h1'',
                               run_fzf := (\<lambda>input_data. Inr (0, ''DELETE:''))\<rparr>)
     = Inr [''home|bob@h1'']
   \<and> select_key_with_fzf (idle_env\<lparr>dump_keychain := Inr ''home|bob@h1'',
                                    run_fzf := (\<lambda>input_data. Inr (0, ''DELETE:''))\<rparr>)
        [''home|bob@h1''] = Inr ([], True)
   \<and> [] \<notin> set [''home|bob@h1'']
   \<and> main_try (idle_env\<lparr>dump_keychain := Inr ''home|bob@h1'',
                         run_fzf := (\<lambda>input_data. Inr (0, ''DELETE:''))\<rparr>) []
        = (Inr [], [])
   \<and> main_try (idle_env\<lparr>dump_keychain := Inr ''home|bob@h1'',
                         run_fzf := (\<lambda>input_data. Inr (0, ''DELETE:''))\<rparr>) []
        \<noteq> (Inl (KittenError (CannotDelete [])), [])"
proof -
  let ?w = "idle_env\<lparr>dump_keychain := Inr ''home|bob@h1'',
                     run_fzf := (\<lambda>input_data. Inr (0, ''DELETE:''))\<rparr>"
  have k: "get_existing_keys ?w = Inr [''home|bob@h1'']"
    by (simp add: get_existing_keys_def strip_def isspace_def Let_def)
  have s: "select_key_with_fzf ?w [''home|bob@h1''] = Inr ([], True)"
    by (simp add: select_key_with_fzf_def fzf_selection_def strip_def isspace_def startswith_def
        format_display_name_def parse_service_name_def split_once_def Let_def)
  have m: "main_try ?w [] = (Inr [], [])"
    by (simp add: main_try_def io_bind_def io_lift_def io_return_def k s)
  show ?thesis
    by (simp add: k s m)
qed

text \<open>
  C6, amended.  When the selector returns a non-empty string for deletion that is
  not among the listed keys, the \<open>try\<close> block raises the \<open>Cannot delete\<close> error before
  any event, \<open>main\<close> reports it, and no \<open>security delete-generic-password\<close> is run.
\<close>

theorem delete_unknown_entry:
  assumes keys: "get_existing_keys w = Inr existing_keys"
    and sel: "select_key_with_fzf w existing_keys = Inr (selected_key, True)"
    and nonempty: "selected_key \<noteq> []"
    and unknown: "selected_key \<notin> set existing_keys"
  shows "main_try w [] = (Inl (KittenError (CannotDelete selected_key)), [])
       \<and> main w = report_and_pause w (KittenError (CannotDelete selected_key)) []
       \<and> (\<forall>service. SecurityDelete service \<notin> set (snd (main w)))"
proof -
  have t: "main_try w [] = (Inl (KittenError (CannotDelete selected_key)), [])"
    using nonempty unknown
    by (simp add: main_try_def io_bind_def io_lift_def io_raise_def keys sel)
  then have m: "main w = report_and_pause w (KittenError (CannotDelete selected_key)) []"
    by (simp add: main_def)
  have "\<forall>service. SecurityDelete service \<notin> set (snd (main w))"
    by (simp add: m report_and_pause_log)
  with t m show ?thesis by simp
qed

theorem delete_unknown_entry_witness:
  "get_existing_keys (idle_env\<lparr>dump_keychain := Inr ''home|bob@h1'',
                               run_fzf := (\<lambda>input_data. Inr (0, ''DELETE:office''))\<rparr>)
     = Inr [''home|bob@h1'']
   \<and> select_key_with_fzf (idle_env\<lparr>dump_keychain := Inr ''home|bob@h1'',
                                    run_fzf := (\<lambda>input_data. Inr (0, ''DELETE:office''))\<rparr>)
        [''home|bob@h1''] = Inr (''office'', True)
   \<and> ''office'' \<noteq> [] \<and> ''office'' \<notin> set [''home|bob@h1'']
   \<and> main (idle_env\<lparr>dump_keychain := Inr ''home|bob@h1'',
                     run_fzf := (\<lambda>input_data. Inr (0, ''DELETE:office''))\<rparr>)
        = (Inr [], [ErrorShown (KittenError (CannotDelete ''office'')), Asked PressEnterToContinue])"
proof -
  let ?w = "idle_env\<lparr>dump_keychain := Inr ''home|bob@h1'',
                     run_fzf := (\<lambda>input_data. Inr (0, ''DELETE:office''))\<rparr>"
  have k: "get_existing_keys ?w = Inr [''home|bob@h1'']"
    by (simp add: get_existing_keys_def strip_def isspace_def Let_def)
  have s: "select_key_with_fzf ?w [''home|bob@h1''] = Inr (''office'', True)"
    by (simp add: select_key_with_fzf_def fzf_selection_def strip_def isspace_def startswith_def
        format_display_name_def parse_service_name_def split_once_def Let_def)
  have n: "''office'' \<noteq> []" by simp
  have u: "''office'' \<notin> set [''home|bob@h1'']" by simp
  have a: "answer_acknowledge ?w = Inr []" by (simp add: idle_env_def)
  show ?thesis
    using delete_unknown_entry [OF k s n u]
    by (simp add: k s report_and_pause_acknowledged [OF a])
qed

text \<open>
  C8.  The handlers of \<open>main\<close> do not cover themselves: when listing the keychain
  fails and the user interrupts the pause that follows the error message, the
  \<open>KeyboardInterrupt\<close> leaves \<open>main\<close>, which returns no string on that run.
\<close>

theorem main_interrupted_in_handler:
  "main (idle_env\<lparr>dump_keychain := Inl FileNotFoundError,
                   answer_acknowledge := Inl KeyboardInterrupt\<rparr>)
     = (Inl KeyboardInterrupt,
        [ErrorShown (KittenError KeychainListFailed), Asked PressEnterToContinue])"
  by (simp add: main_def main_try_def get_existing_keys_def io_bind_def io_lift_def
      report_and_pause_def kitty_input_def io_emit_def io_raise_def)

text \<open>
  C9.  When the selection is empty, \<open>main\<close> returns the empty string at once,
  whatever the delete flag: no prompt, no deletion, no error shown.  In particular
  an output that strips to \<open>DELETE:\<close>, where no display name is empty, is such a
  silent cancel.
\<close>

theorem empty_selection_is_cancel:
  assumes keys: "get_existing_keys w = Inr existing_keys"
  shows "(select_key_with_fzf w existing_keys = Inr ([], is_delete) \<longrightarrow> main w = (Inr [], []))
       \<and> (run_fzf w (join_lines (map format_display_name existing_keys)) = Inr (returncode, stdout)
            \<and> strip stdout = ''DELETE:''
            \<and> [] \<notin> set (map format_display_name existing_keys)
          \<longrightarrow> select_key_with_fzf w existing_keys = Inr ([], True) \<and> main w = (Inr [], []))"
proof (intro conjI impI)
  assume "select_key_with_fzf w existing_keys = Inr ([], is_delete)"
  with keys have "main_try w [] = (Inr [], [])" by (rule main_try_empty_selection)
  then show "main w = (Inr [], [])" by (simp add: main_def)
next
  assume a: "run_fzf w (join_lines (map format_display_name existing_keys)) = Inr (returncode, stdout)
            \<and> strip stdout = ''DELETE:''
            \<and> [] \<notin> set (map format_display_name existing_keys)"
  then have none: "first_index (map format_display_name existing_keys) [] 0 = None"
    by (simp add: first_index_None)
  from a have "select_key_with_fzf w existing_keys = Inr (fzf_selection existing_keys returncode stdout)"
    by (simp add: select_completed)
  moreover have "fzf_selection existing_keys returncode stdout = ([], True)"
    using a none by (simp add: fzf_selection_def startswith_def)
  ultimately show s: "select_key_with_fzf w existing_keys = Inr ([], True)" by simp
  from keys s have "main_try w [] = (Inr [], [])" by (rule main_try_empty_selection)
  then show "main w = (Inr [], [])" by (simp add: main_def)
qed

theorem empty_selection_is_cancel_witness:
  "get_existing_keys (idle_env\<lparr>dump_keychain := Inr ''home|bob@h1'',
                               run_fzf := (\<lambda>input_data. Inr (0, ''DELETE: ''))\<rparr>)
     = Inr [''home|bob@h1'']
   \<and> run_fzf (idle_env\<lparr>dump_keychain := Inr ''home|bob@h1'',
                        run_fzf := (\<lambda>input_data. Inr (0, ''DELETE: ''))\<rparr>)
        (join_lines (map format_display_name [''home|bob@h1''])) = Inr (0, ''DELETE: '')
   \<and> strip ''DELETE: '' = ''DELETE:''
   \<and> [] \<notin> set (map format_display_name [''home|bob@h1''])
   \<and> select_key_with_fzf (idle_env\<lparr>dump_keychain := Inr ''home|bob@h1'',
                                    run_fzf := (\<lambda>input_data. Inr (0, ''DELETE: ''))\<rparr>)
        [''home|bob@h1''] = Inr ([], True)
   \<and> main (idle_env\<lparr>dump_keychain := Inr ''home|bob@h1'',
                     run_fzf := (\<lambda>input_data. Inr (0, ''DELETE: ''))\<rparr>) = (Inr [], [])"
proof -
  let ?w = "idle_env\<lparr>dump_keychain := Inr ''home|bob@h1'',
                     run_fzf := (\<lambda>input_data. Inr (0, ''DELETE: ''))\<rparr>"
  have k: "get_existing_keys ?w = Inr [''home|bob@h1'']"
    by (simp add: get_existing_keys_def strip_def isspace_def Let_def)
  have st: "strip ''DELETE: '' = ''DELETE:''"
    by (simp add: strip_def isspace_def)
  have d: "[] \<notin> set (map format_display_name [''home|bob@h1''])"
    by (simp add: format_display_name_def parse_service_name_def split_once_def)
  show ?thesis
    using empty_selection_is_cancel [OF k, of True 0 "''DELETE: ''"] d
    by (simp add: k st)
qed

end
